theory Spec2Isabelle
  imports Main
begin

section \<open>Python values, dictionaries and exceptions\<close>

text \<open>
  The module \<^verbatim>\<open>auth.py\<close> is dynamically typed: the fields of a \<^verbatim>\<open>UserDB\<close> object, the
  entries of the dictionary built by \<^verbatim>\<open>get_manufacturer\<close> and the claims of a decoded
  token hold whatever value was put there. The values that occur are strings, booleans
  and (for the \<^verbatim>\<open>exp\<close> claim) integers. \<^verbatim>\<open>None\<close> is not among the values: where the
  code tests for it (\<^verbatim>\<open>username is None\<close>, \<^verbatim>\<open>user is None\<close>) the key or the object
  is absent.
\<close>

datatype pyval = PStr string | PBool bool | PInt int

text \<open>Python truthiness, as used by \<^verbatim>\<open>not user.is_active\<close>.\<close>

fun truthy :: "pyval \<Rightarrow> bool" where
  "truthy (PStr s) = (s \<noteq> [])"
| "truthy (PBool b) = b"
| "truthy (PInt n) = (n \<noteq> 0)"

type_synonym dict = "string \<rightharpoonup> pyval"

text \<open>
  The exceptions that leave the functions of the module. \<^verbatim>\<open>credentials_exception\<close> is
  the \<^verbatim>\<open>HTTPException\<close> with status 401 built at the top of \<^verbatim>\<open>get_current_user\<close>; the
  one of \<^verbatim>\<open>get_super_admin_user\<close> has status 403. \<^verbatim>\<open>KeyError\<close> is raised by \<^verbatim>\<open>d[k]\<close>
  on a missing key, and \<^verbatim>\<open>PasslibError\<close> stands for whatever \<^verbatim>\<open>pwd_context.verify\<close>
  raises on a hash it cannot handle.
\<close>

datatype error =
    HTTP_401_UNAUTHORIZED
  | HTTP_403_FORBIDDEN
  | KeyError string
  | PasslibError

text \<open>\<^verbatim>\<open>d[k]\<close> and \<^verbatim>\<open>d.get(k, default)\<close>.\<close>

definition getitem :: "dict \<Rightarrow> string \<Rightarrow> error + pyval" where
  "getitem d k = (case d k of None \<Rightarrow> Inl (KeyError k) | Some v \<Rightarrow> Inr v)"

definition get_default :: "dict \<Rightarrow> string \<Rightarrow> pyval \<Rightarrow> pyval" where
  "get_default d k dflt = (case d k of None \<Rightarrow> dflt | Some v \<Rightarrow> v)"

section \<open>The credential store\<close>

text \<open>
  Two MongoDB collections, each a sequence of documents in insertion order;
  \<^verbatim>\<open>find_one\<close> returns the first document that matches, and a document it returns is
  never empty, so the tests \<^verbatim>\<open>if user_data\<close>, \<^verbatim>\<open>if not super_admin\<close>,
  \<^verbatim>\<open>if existing_user\<close> ask whether a document was found. A document carries the fields
  the module writes (\<^verbatim>\<open>init_super_admin\<close>, \<^verbatim>\<open>create_manufacturer_user\<close>); the fields
  the module reads with a default (\<^verbatim>\<open>is_active\<close>, \<^verbatim>\<open>role\<close>) may be absent. The field
  \<^verbatim>\<open>_id\<close> is the ObjectId the driver assigns on insertion, as a number.
\<close>

record user_doc =
  u_id :: nat
  u_username :: string
  u_email :: string
  u_hashed_password :: string
  u_is_active :: "bool option"
  u_role :: "string option"
  u_created_at :: string

record manufacturer_doc =
  m_id :: nat
  m_username :: string
  m_email :: string
  m_hashed_password :: string
  m_company_name :: string
  m_is_active :: "bool option"
  m_role :: "string option"
  m_created_at :: string

record store =
  users_collection :: "user_doc list"
  manufacturers_collection :: "manufacturer_doc list"

text \<open>\<^verbatim>\<open>collection.find_one({field: value})\<close>: the first document satisfying the query.\<close>

definition find_one :: "('d \<Rightarrow> bool) \<Rightarrow> 'd list \<Rightarrow> 'd option" where
  "find_one query coll = List.find query coll"

text \<open>\<^verbatim>\<open>collection.insert_one(doc)\<close> appends the document.\<close>

definition insert_one :: "'d \<Rightarrow> 'd list \<Rightarrow> 'd list" where
  "insert_one doc coll = coll @ [doc]"

text \<open>
  \<^verbatim>\<open>str(result.inserted_id)\<close>: an ObjectId is twelve bytes and prints as its 24
  hexadecimal digits.
\<close>

definition hex_digit :: "nat \<Rightarrow> char" where
  "hex_digit d = (''0123456789abcdef'') ! (d mod 16)"

definition str_oid :: "nat \<Rightarrow> string" where
  "str_oid n = map (\<lambda>i. hex_digit ((n div 16 ^ (23 - i)) mod 16)) [0..<24]"

section \<open>External collaborators\<close>

text \<open>
  The password context of passlib, the JWT codec of python-jose and the configuration
  (\<^verbatim>\<open>SECRET_KEY\<close>, \<^verbatim>\<open>ALGORITHM\<close>) are not part of the module; they are parameters of the
  model. \<^verbatim>\<open>pwd_hash\<close> is \<^verbatim>\<open>pwd_context.hash\<close> (with the salt it draws),
  \<^verbatim>\<open>pwd_verify\<close> is \<^verbatim>\<open>pwd_context.verify\<close>, which returns a boolean or raises.
  \<^verbatim>\<open>jwt_decode\<close> reads the clock (POSIX seconds) to validate the \<^verbatim>\<open>exp\<close> claim and
  either returns the payload or raises a \<^verbatim>\<open>JWTError\<close> (bad signature, malformed token,
  expired token, invalid claims).
\<close>

datatype JWTError = JWTError | ExpiredSignatureError | JWTClaimsError

record 'tok env =
  SECRET_KEY :: string
  ALGORITHM :: string
  pwd_hash :: "string \<Rightarrow> string"
  pwd_verify :: "string \<Rightarrow> pyval \<Rightarrow> error + bool"
  jwt_encode :: "dict \<Rightarrow> string \<Rightarrow> string \<Rightarrow> 'tok"
  jwt_decode :: "int \<Rightarrow> 'tok \<Rightarrow> string \<Rightarrow> string list \<Rightarrow> JWTError + dict"

section \<open>The module\<close>

definition SUPER_ADMIN_USERNAME :: string where
  "SUPER_ADMIN_USERNAME = ''admin''"

definition verify_password :: "'tok env \<Rightarrow> string \<Rightarrow> pyval \<Rightarrow> error + bool" where
  "verify_password E plain_password hashed_password =
     pwd_verify E plain_password hashed_password"

definition get_password_hash :: "'tok env \<Rightarrow> string \<Rightarrow> string" where
  "get_password_hash E password = pwd_hash E password"

text \<open>
  \<^verbatim>\<open>init_super_admin\<close>. The ObjectId the driver would assign and the text of
  \<^verbatim>\<open>datetime.now().isoformat()\<close> are arguments.
\<close>

definition init_super_admin :: "'tok env \<Rightarrow> nat \<Rightarrow> string \<Rightarrow> store \<Rightarrow> store" where
  "init_super_admin E oid now_iso s =
     (case find_one (\<lambda>d. u_username d = SUPER_ADMIN_USERNAME) (users_collection s) of
        Some super_admin \<Rightarrow> s
      | None \<Rightarrow>
          (let hashed_password = get_password_hash E ''admin123''
           in s\<lparr>users_collection :=
                  insert_one
                    \<lparr>u_id = oid,
                     u_username = SUPER_ADMIN_USERNAME,
                     u_email = ''admin@hospital-device-risk.com'',
                     u_hashed_password = hashed_password,
                     u_is_active = Some True,
                     u_role = Some ''super_admin'',
                     u_created_at = now_iso\<rparr>
                    (users_collection s)\<rparr>))"

text \<open>
  The class \<^verbatim>\<open>UserDB\<close>; its constructor defaults \<^verbatim>\<open>is_active\<close> to \<^verbatim>\<open>True\<close> and
  \<^verbatim>\<open>role\<close> to \<^verbatim>\<open>"user"\<close>.
\<close>

record UserDB =
  username :: pyval
  email :: pyval
  hashed_password :: pyval
  is_active :: pyval
  role :: pyval

text \<open>
  \<^verbatim>\<open>get_user\<close>: the document without \<^verbatim>\<open>_id\<close>, passed to the constructor (which
  drops \<^verbatim>\<open>created_at\<close> with the other keyword arguments it ignores).
\<close>

definition get_user :: "store \<Rightarrow> pyval \<Rightarrow> UserDB option" where
  "get_user s uname =
     (case find_one (\<lambda>d. PStr (u_username d) = uname) (users_collection s) of
        Some user_data \<Rightarrow>
          Some \<lparr>username = PStr (u_username user_data),
                email = PStr (u_email user_data),
                hashed_password = PStr (u_hashed_password user_data),
                is_active = (case u_is_active user_data of None \<Rightarrow> PBool True | Some b \<Rightarrow> PBool b),
                role = (case u_role user_data of None \<Rightarrow> PStr ''user'' | Some r \<Rightarrow> PStr r)\<rparr>
      | None \<Rightarrow> None)"

text \<open>
  \<^verbatim>\<open>get_manufacturer\<close> returns a dictionary with exactly five keys (so it is truthy
  whenever it is returned); the stored \<^verbatim>\<open>hashed_password\<close> is not among them.
\<close>

definition get_manufacturer :: "store \<Rightarrow> pyval \<Rightarrow> dict option" where
  "get_manufacturer s uname =
     (case find_one (\<lambda>d. PStr (m_username d) = uname) (manufacturers_collection s) of
        Some manufacturer_data \<Rightarrow>
          Some [''username'' \<mapsto> PStr (m_username manufacturer_data),
                ''email'' \<mapsto> PStr (m_email manufacturer_data),
                ''company_name'' \<mapsto> PStr (m_company_name manufacturer_data),
                ''is_active'' \<mapsto>
                   (case m_is_active manufacturer_data of None \<Rightarrow> PBool True | Some b \<Rightarrow> PBool b),
                ''role'' \<mapsto> PStr ''manufacturer'']
      | None \<Rightarrow> None)"

text \<open>
  \<^verbatim>\<open>authenticate_user\<close> returns a \<^verbatim>\<open>UserDB\<close> object or \<^verbatim>\<open>False\<close>. In the manufacturer
  branch the arguments of the constructor are evaluated left to right, each
  \<^verbatim>\<open>manufacturer[...]\<close> raising \<^verbatim>\<open>KeyError\<close> on a missing key.
\<close>

datatype auth_result = AuthFalse | AuthUser UserDB

definition authenticate_user :: "'tok env \<Rightarrow> store \<Rightarrow> string \<Rightarrow> string \<Rightarrow> error + auth_result" where
  "authenticate_user E s uname password =
     (case get_user s (PStr uname) of
        None \<Rightarrow>
          (case get_manufacturer s (PStr uname) of
             None \<Rightarrow> Inr AuthFalse
           | Some manufacturer \<Rightarrow>
               (case verify_password E password
                       (get_default manufacturer ''hashed_password'' (PStr '''')) of
                  Inl e \<Rightarrow> Inl e
                | Inr False \<Rightarrow> Inr AuthFalse
                | Inr True \<Rightarrow>
                    (case getitem manufacturer ''username'' of Inl e \<Rightarrow> Inl e | Inr un \<Rightarrow>
                    (case getitem manufacturer ''email'' of Inl e \<Rightarrow> Inl e | Inr em \<Rightarrow>
                    (case getitem manufacturer ''hashed_password'' of Inl e \<Rightarrow> Inl e | Inr hp \<Rightarrow>
                    (case getitem manufacturer ''is_active'' of Inl e \<Rightarrow> Inl e | Inr ia \<Rightarrow>
                       Inr (AuthUser \<lparr>username = un, email = em, hashed_password = hp,
                                      is_active = ia, role = PStr ''manufacturer''\<rparr>)))))))
      | Some user \<Rightarrow>
          (case verify_password E password (hashed_password user) of
             Inl e \<Rightarrow> Inl e
           | Inr ok \<Rightarrow> if \<not> ok then Inr AuthFalse else Inr (AuthUser user)))"

text \<open>
  \<^verbatim>\<open>create_access_token\<close>. \<^verbatim>\<open>now\<close> is \<^verbatim>\<open>datetime.utcnow()\<close> and \<^verbatim>\<open>expires_delta\<close> a
  \<^verbatim>\<open>timedelta\<close>, both in seconds; a zero \<^verbatim>\<open>timedelta\<close> is falsy, so
  \<^verbatim>\<open>if expires_delta\<close> takes the default branch for it as for \<^verbatim>\<open>None\<close>.
\<close>

definition create_access_token :: "'tok env \<Rightarrow> int \<Rightarrow> dict \<Rightarrow> int option \<Rightarrow> 'tok" where
  "create_access_token E now data expires_delta =
     (let to_encode = data;
          expire = (case expires_delta of
                      Some delta \<Rightarrow> if delta \<noteq> 0 then now + delta else now + 15 * 60
                    | None \<Rightarrow> now + 15 * 60);
          to_encode = to_encode(''exp'' \<mapsto> PInt expire);
          encoded_jwt = jwt_encode E to_encode (SECRET_KEY E) (ALGORITHM E)
      in encoded_jwt)"

text \<open>
  Modelled from the spec: the class \<^verbatim>\<open>TokenData\<close> of the module \<^verbatim>\<open>models\<close>, which is
  not among the sources; verification "yields {username, role}".
\<close>

record TokenData =
  td_username :: pyval
  td_role :: pyval

text \<open>
  The \<^verbatim>\<open>try\<close> block of \<^verbatim>\<open>get_current_user\<close> (lines 160 to 168): it yields the token
  data and the local variable \<^verbatim>\<open>role\<close> (here \<open>role'\<close>). A \<^verbatim>\<open>JWTError\<close> becomes the
  credentials exception; so does a payload without \<^verbatim>\<open>sub\<close>.
\<close>

definition decode_token :: "'tok env \<Rightarrow> int \<Rightarrow> 'tok \<Rightarrow> error + TokenData \<times> pyval" where
  "decode_token E now token =
     (case jwt_decode E now token (SECRET_KEY E) [ALGORITHM E] of
        Inl jwt_error \<Rightarrow> Inl HTTP_401_UNAUTHORIZED
      | Inr payload \<Rightarrow>
          (let uname = payload ''sub'';
               role' = get_default payload ''role'' (PStr ''user'')
           in case uname of
                None \<Rightarrow> Inl HTTP_401_UNAUTHORIZED
              | Some uname \<Rightarrow> Inr (\<lparr>td_username = uname, td_role = role'\<rparr>, role')))"

text \<open>
  The lookup of \<^verbatim>\<open>get_current_user\<close> (lines 171 to 183): the user store first, the
  manufacturer store when it has no record; \<^verbatim>\<open>None\<close> when neither has one.
\<close>

definition lookup_principal :: "store \<Rightarrow> pyval \<Rightarrow> error + UserDB option" where
  "lookup_principal s uname =
     (case get_user s uname of
        Some user \<Rightarrow> Inr (Some user)
      | None \<Rightarrow>
          (case get_manufacturer s uname of
             None \<Rightarrow> Inr None
           | Some manufacturer \<Rightarrow>
               (let hashed_password = get_default manufacturer ''hashed_password'' (PStr '''')
                in (case getitem manufacturer ''username'' of Inl e \<Rightarrow> Inl e | Inr un \<Rightarrow>
                   (case getitem manufacturer ''email'' of Inl e \<Rightarrow> Inl e | Inr em \<Rightarrow>
                     Inr (Some \<lparr>username = un, email = em, hashed_password = hashed_password,
                                is_active = get_default manufacturer ''is_active'' (PBool True),
                                role = get_default manufacturer ''role'' (PStr ''manufacturer'')\<rparr>))))))"

definition get_current_user :: "'tok env \<Rightarrow> store \<Rightarrow> int \<Rightarrow> 'tok \<Rightarrow> error + UserDB" where
  "get_current_user E s now token =
     (case decode_token E now token of
        Inl e \<Rightarrow> Inl e
      | Inr (token_data, role') \<Rightarrow>
          (case lookup_principal s (td_username token_data) of
             Inl e \<Rightarrow> Inl e
           | Inr None \<Rightarrow> Inl HTTP_401_UNAUTHORIZED
           | Inr (Some user) \<Rightarrow>
               if \<not> truthy (is_active user) then Inl HTTP_401_UNAUTHORIZED
               else Inr (user\<lparr>role := role'\<rparr>)))"

definition get_super_admin_user :: "UserDB \<Rightarrow> error + UserDB" where
  "get_super_admin_user current_user =
     (if role current_user \<noteq> PStr ''super_admin'' then Inl HTTP_403_FORBIDDEN
      else Inr current_user)"

text \<open>
  \<^verbatim>\<open>create_manufacturer_user\<close> returns a pair; the store after the call is returned
  with it. As in \<^verbatim>\<open>init_super_admin\<close>, the ObjectId of the inserted document and the
  text of \<^verbatim>\<open>datetime.now().isoformat()\<close> are arguments.
\<close>

definition create_manufacturer_user ::
  "'tok env \<Rightarrow> nat \<Rightarrow> string \<Rightarrow> store \<Rightarrow> string \<Rightarrow> string \<Rightarrow> string \<Rightarrow> string
     \<Rightarrow> store \<times> bool \<times> string" where
  "create_manufacturer_user E oid now_iso s uname mail password company_name =
     (case find_one (\<lambda>d. m_username d = uname) (manufacturers_collection s) of
        Some existing_user \<Rightarrow> (s, False, ''Username already exists'')
      | None \<Rightarrow>
          (case find_one (\<lambda>d. m_email d = mail) (manufacturers_collection s) of
             Some existing_email \<Rightarrow> (s, False, ''Email already registered'')
           | None \<Rightarrow>
               (let hashed_password = get_password_hash E password;
                    manufacturer_data =
                      \<lparr>m_id = oid,
                       m_username = uname,
                       m_email = mail,
                       m_hashed_password = hashed_password,
                       m_company_name = company_name,
                       m_is_active = Some True,
                       m_role = Some ''manufacturer'',
                       m_created_at = now_iso\<rparr>
                in (s\<lparr>manufacturers_collection :=
                        insert_one manufacturer_data (manufacturers_collection s)\<rparr>,
                    True, str_oid (m_id manufacturer_data)))))"

definition authenticate_manufacturer ::
  "'tok env \<Rightarrow> store \<Rightarrow> string \<Rightarrow> string \<Rightarrow> error + auth_result" where
  "authenticate_manufacturer E s uname password =
     (case find_one (\<lambda>d. m_username d = uname) (manufacturers_collection s) of
        None \<Rightarrow> Inr AuthFalse
      | Some manufacturer_data \<Rightarrow>
          (case verify_password E password (PStr (m_hashed_password manufacturer_data)) of
             Inl e \<Rightarrow> Inl e
           | Inr ok \<Rightarrow>
               if \<not> ok then Inr AuthFalse
               else Inr (AuthUser
                 \<lparr>username = PStr (m_username manufacturer_data),
                  email = PStr (m_email manufacturer_data),
                  hashed_password = PStr (m_hashed_password manufacturer_data),
                  is_active = (case m_is_active manufacturer_data of
                                 None \<Rightarrow> PBool True | Some b \<Rightarrow> PBool b),
                  role = (case m_role manufacturer_data of
                            None \<Rightarrow> PStr ''manufacturer'' | Some r \<Rightarrow> PStr r)\<rparr>)))"

section \<open>A concrete environment\<close>

text \<open>
  An instance of the external collaborators and a small store, on which the functions
  above are evaluated. The password context marks a hash with the prefix \<^verbatim>\<open>$plain$\<close>
  and, like passlib, raises on a hash it does not recognise. A token is the payload with
  the key and the algorithm that signed it; decoding checks both and then the \<^verbatim>\<open>exp\<close>
  claim against the clock, as python-jose does (expired when \<^verbatim>\<open>exp < now\<close>).
\<close>

datatype demo_token = Token dict string string | Garbled

definition demo_verify :: "string \<Rightarrow> pyval \<Rightarrow> error + bool" where
  "demo_verify plain h =
     (case h of
        PStr x \<Rightarrow> if take 7 x = ''$plain$'' then Inr (drop 7 x = plain) else Inl PasslibError
      | PBool b \<Rightarrow> Inl PasslibError
      | PInt n \<Rightarrow> Inl PasslibError)"

definition demo_decode :: "int \<Rightarrow> demo_token \<Rightarrow> string \<Rightarrow> string list \<Rightarrow> JWTError + dict" where
  "demo_decode now tok key algs =
     (case tok of
        Garbled \<Rightarrow> Inl JWTError
      | Token claims k a \<Rightarrow>
          if k = key \<and> a \<in> set algs
          then (case claims ''exp'' of
                  Some (PInt e) \<Rightarrow> if e < now then Inl ExpiredSignatureError else Inr claims
                | Some (PStr x) \<Rightarrow> Inl JWTClaimsError
                | Some (PBool b) \<Rightarrow> Inl JWTClaimsError
                | None \<Rightarrow> Inr claims)
          else Inl JWTError)"

definition demo_env :: "demo_token env" where
  "demo_env =
     \<lparr>SECRET_KEY = ''k'', ALGORITHM = ''HS256'',
      pwd_hash = (\<lambda>p. ''$plain$'' @ p),
      pwd_verify = demo_verify,
      jwt_encode = (\<lambda>claims key alg. Token claims key alg),
      jwt_decode = demo_decode\<rparr>"

text \<open>
  The store: an inactive user \<^verbatim>\<open>bob\<close>, the super admin, and three manufacturers, one
  of them sharing the username \<^verbatim>\<open>bob\<close> with the user and one inactive.
\<close>

definition demo_store :: store where
  "demo_store =
     \<lparr>users_collection =
        [\<lparr>u_id = 1, u_username = ''bob'', u_email = ''bob@example.org'',
          u_hashed_password = ''$plain$pw'', u_is_active = Some False,
          u_role = Some ''user'', u_created_at = ''2024-01-01''\<rparr>,
         \<lparr>u_id = 2, u_username = ''admin'', u_email = ''admin@hospital-device-risk.com'',
          u_hashed_password = ''$plain$admin123'', u_is_active = Some True,
          u_role = Some ''super_admin'', u_created_at = ''2024-01-01''\<rparr>],
      manufacturers_collection =
        [\<lparr>m_id = 3, m_username = ''acme'', m_email = ''it@acme.example'',
          m_hashed_password = ''$plain$s3cret'', m_company_name = ''Acme'',
          m_is_active = Some True, m_role = Some ''manufacturer'',
          m_created_at = ''2024-01-02''\<rparr>,
         \<lparr>m_id = 4, m_username = ''bob'', m_email = ''bob@maker.example'',
          m_hashed_password = ''$plain$pw2'', m_company_name = ''Bob Co'',
          m_is_active = Some True, m_role = Some ''manufacturer'',
          m_created_at = ''2024-01-02''\<rparr>,
         \<lparr>m_id = 5, m_username = ''old'', m_email = ''old@maker.example'',
          m_hashed_password = ''$plain$pw3'', m_company_name = ''Old Co'',
          m_is_active = Some False, m_role = Some ''manufacturer'',
          m_created_at = ''2024-01-02''\<rparr>]\<rparr>"

text \<open>
  A second store, with the collision the other way round: an active user \<^verbatim>\<open>carol\<close> and
  an inactive manufacturer \<^verbatim>\<open>carol\<close>.
\<close>

definition shadow_store :: store where
  "shadow_store =
     \<lparr>users_collection =
        [\<lparr>u_id = 1, u_username = ''carol'', u_email = ''carol@example.org'',
          u_hashed_password = ''$plain$pw'', u_is_active = Some True,
          u_role = Some ''user'', u_created_at = ''2024-01-01''\<rparr>],
      manufacturers_collection =
        [\<lparr>m_id = 2, m_username = ''carol'', m_email = ''carol@maker.example'',
          m_hashed_password = ''$plain$pw2'', m_company_name = ''Carol Co'',
          m_is_active = Some False, m_role = Some ''manufacturer'',
          m_created_at = ''2024-01-02''\<rparr>]\<rparr>"

section \<open>Auxiliary facts\<close>

lemma find_one_None_iff: "find_one P xs = None \<longleftrightarrow> \<not> (\<exists>x\<in>set xs. P x)"
  by (auto simp: find_one_def find_None_iff)

lemma find_one_Some_holds: "find_one P xs = Some x \<Longrightarrow> P x \<and> x \<in> set xs"
  by (auto simp: find_one_def find_Some_iff)

lemma find_one_append:
  "find_one P (xs @ ys) = (case find_one P xs of None \<Rightarrow> find_one P ys | Some x \<Rightarrow> Some x)"
  by (induction xs) (simp_all add: find_one_def)

text \<open>The dictionary of \<^verbatim>\<open>get_manufacturer\<close>: which keys it has and what they hold.\<close>

lemma get_manufacturer_None:
  "get_manufacturer s uname = None \<longleftrightarrow>
     find_one (\<lambda>d. PStr (m_username d) = uname) (manufacturers_collection s) = None"
  by (simp add: get_manufacturer_def split: option.splits)

lemma get_manufacturer_Some:
  assumes "get_manufacturer s uname = Some m"
  obtains md where
    "find_one (\<lambda>d. PStr (m_username d) = uname) (manufacturers_collection s) = Some md"
    "m ''username'' = Some (PStr (m_username md))"
    "m ''email'' = Some (PStr (m_email md))"
    "m ''hashed_password'' = None"
    "m ''is_active'' = Some (PBool (case m_is_active md of None \<Rightarrow> True | Some b \<Rightarrow> b))"
    "m ''role'' = Some (PStr ''manufacturer'')"
proof (cases "find_one (\<lambda>d. PStr (m_username d) = uname) (manufacturers_collection s)")
  case None
  with assms show ?thesis by (simp add: get_manufacturer_def)
next
  case (Some md)
  with assms have m: "m = [''username'' \<mapsto> PStr (m_username md),
                ''email'' \<mapsto> PStr (m_email md),
                ''company_name'' \<mapsto> PStr (m_company_name md),
                ''is_active'' \<mapsto>
                   (case m_is_active md of None \<Rightarrow> PBool True | Some b \<Rightarrow> PBool b),
                ''role'' \<mapsto> PStr ''manufacturer'']"
    by (simp add: get_manufacturer_def)
  show ?thesis
  proof (rule that [of md])
    show "find_one (\<lambda>d. PStr (m_username d) = uname) (manufacturers_collection s) = Some md"
      by (rule Some)
    show "m ''username'' = Some (PStr (m_username md))" by (simp add: m)
    show "m ''email'' = Some (PStr (m_email md))" by (simp add: m)
    show "m ''hashed_password'' = None" by (simp add: m)
    show "m ''is_active'' = Some (PBool (case m_is_active md of None \<Rightarrow> True | Some b \<Rightarrow> b))"
      by (simp add: m split: option.splits)
    show "m ''role'' = Some (PStr ''manufacturer'')" by (simp add: m)
  qed
qed

text \<open>The lookup of \<^verbatim>\<open>get_current_user\<close> never raises.\<close>

lemma lookup_principal_user:
  "get_user s uname = Some usr \<Longrightarrow> lookup_principal s uname = Inr (Some usr)"
  by (simp add: lookup_principal_def)

lemma lookup_principal_neither:
  "get_user s uname = None \<Longrightarrow> get_manufacturer s uname = None \<Longrightarrow>
     lookup_principal s uname = Inr None"
  by (simp add: lookup_principal_def)

lemma lookup_principal_manufacturer:
  assumes "get_user s uname = None"
    and "get_manufacturer s uname = Some m"
  shows "\<exists>un em. lookup_principal s uname =
           Inr (Some \<lparr>username = un, email = em, hashed_password = PStr '''',
                      is_active = get_default m ''is_active'' (PBool True),
                      role = PStr ''manufacturer''\<rparr>)"
proof -
  from assms(2) obtain md where
    "find_one (\<lambda>d. PStr (m_username d) = uname) (manufacturers_collection s) = Some md"
    "m ''username'' = Some (PStr (m_username md))"
    "m ''email'' = Some (PStr (m_email md))"
    "m ''hashed_password'' = None"
    "m ''is_active'' = Some (PBool (case m_is_active md of None \<Rightarrow> True | Some b \<Rightarrow> b))"
    "m ''role'' = Some (PStr ''manufacturer'')"
    by (rule get_manufacturer_Some)
  with assms show ?thesis
    by (simp add: lookup_principal_def getitem_def get_default_def)
qed

lemma lookup_principal_manufacturer_doc:
  assumes "get_user s uname = None"
    and "find_one (\<lambda>d. PStr (m_username d) = uname) (manufacturers_collection s) = Some md"
  shows "lookup_principal s uname =
           Inr (Some \<lparr>username = PStr (m_username md), email = PStr (m_email md),
                      hashed_password = PStr '''',
                      is_active = PBool (case m_is_active md of None \<Rightarrow> True | Some b \<Rightarrow> b),
                      role = PStr ''manufacturer''\<rparr>)"
  using assms
  by (simp add: lookup_principal_def get_manufacturer_def getitem_def get_default_def
      split: option.splits)

lemma decode_token_cases:
  "decode_token E now token =
     (case jwt_decode E now token (SECRET_KEY E) [ALGORITHM E] of
        Inl e \<Rightarrow> Inl HTTP_401_UNAUTHORIZED
      | Inr payload \<Rightarrow>
          (case payload ''sub'' of
             None \<Rightarrow> Inl HTTP_401_UNAUTHORIZED
           | Some uname \<Rightarrow>
               Inr (\<lparr>td_username = uname,
                      td_role = (case payload ''role'' of None \<Rightarrow> PStr ''user'' | Some r \<Rightarrow> r)\<rparr>,
                    (case payload ''role'' of None \<Rightarrow> PStr ''user'' | Some r \<Rightarrow> r))))"
  by (simp add: decode_token_def get_default_def Let_def split: sum.splits option.splits)

lemma length_str_oid: "length (str_oid n) = 24"
  by (simp add: str_oid_def)

text \<open>
  \<^verbatim>\<open>find_one\<close> over the contents of a collection: it returns a document exactly when
  that document matches and no document before it does.
\<close>

lemma find_one_first_match:
  "find_one P xs = Some x \<longleftrightarrow>
     (\<exists>pre post. xs = pre @ x # post \<and> P x \<and> (\<forall>y\<in>set pre. \<not> P y))"
proof (induction xs)
  case Nil
  show ?case by (simp add: find_one_def)
next
  case (Cons a xs)
  show ?case
  proof (cases "P a")
    case True
    have "(\<exists>pre post. a # xs = pre @ x # post \<and> P x \<and> (\<forall>y\<in>set pre. \<not> P y)) = (x = a)"
    proof
      assume "\<exists>pre post. a # xs = pre @ x # post \<and> P x \<and> (\<forall>y\<in>set pre. \<not> P y)"
      then obtain pre post where d: "a # xs = pre @ x # post" and n: "\<forall>y\<in>set pre. \<not> P y"
        by blast
      show "x = a"
      proof (cases pre)
        case Nil
        with d show ?thesis by simp
      next
        case (Cons b pre')
        with d have "b = a" by simp
        with Cons n True show ?thesis by simp
      qed
    next
      assume "x = a"
      with True have "a # xs = [] @ x # xs \<and> P x \<and> (\<forall>y\<in>set []. \<not> P y)"
        by simp
      then show "\<exists>pre post. a # xs = pre @ x # post \<and> P x \<and> (\<forall>y\<in>set pre. \<not> P y)"
        by blast
    qed
    with True show ?thesis
      by (auto simp: find_one_def)
  next
    case False
    have "(\<exists>pre post. a # xs = pre @ x # post \<and> P x \<and> (\<forall>y\<in>set pre. \<not> P y))
        = (\<exists>pre post. xs = pre @ x # post \<and> P x \<and> (\<forall>y\<in>set pre. \<not> P y))"
    proof
      assume "\<exists>pre post. a # xs = pre @ x # post \<and> P x \<and> (\<forall>y\<in>set pre. \<not> P y)"
      then obtain pre post where d: "a # xs = pre @ x # post" and px: "P x"
        and n: "\<forall>y\<in>set pre. \<not> P y"
        by blast
      show "\<exists>pre post. xs = pre @ x # post \<and> P x \<and> (\<forall>y\<in>set pre. \<not> P y)"
      proof (cases pre)
        case Nil
        with d px False show ?thesis by simp
      next
        case (Cons b pre')
        with d n px have "xs = pre' @ x # post \<and> P x \<and> (\<forall>y\<in>set pre'. \<not> P y)"
          by simp
        then show ?thesis by blast
      qed
    next
      assume "\<exists>pre post. xs = pre @ x # post \<and> P x \<and> (\<forall>y\<in>set pre. \<not> P y)"
      then obtain pre post where "xs = pre @ x # post" and "P x" and "\<forall>y\<in>set pre. \<not> P y"
        by blast
      with False have "a # xs = (a # pre) @ x # post \<and> P x \<and> (\<forall>y\<in>set (a # pre). \<not> P y)"
        by simp
      then show "\<exists>pre post. a # xs = pre @ x # post \<and> P x \<and> (\<forall>y\<in>set pre. \<not> P y)"
        by blast
    qed
    with False Cons.IH show ?thesis
      by (simp add: find_one_def)
  qed
qed

text \<open>
  \<^verbatim>\<open>get_current_user\<close> on a token that decodes and has a subject, by the documents the
  two collections hold for the subject.
\<close>

lemma get_current_user_by_documents:
  assumes "jwt_decode E now token (SECRET_KEY E) [ALGORITHM E] = Inr payload"
    and "payload ''sub'' = Some sub"
  shows "get_current_user E s now token =
    (case find_one (\<lambda>d. PStr (u_username d) = sub) (users_collection s) of
       Some ud \<Rightarrow>
         if u_is_active ud = Some False then Inl HTTP_401_UNAUTHORIZED
         else Inr \<lparr>username = PStr (u_username ud), email = PStr (u_email ud),
                    hashed_password = PStr (u_hashed_password ud), is_active = PBool True,
                    role = get_default payload ''role'' (PStr ''user'')\<rparr>
     | None \<Rightarrow>
         (case find_one (\<lambda>d. PStr (m_username d) = sub) (manufacturers_collection s) of
            None \<Rightarrow> Inl HTTP_401_UNAUTHORIZED
          | Some md \<Rightarrow>
              if m_is_active md = Some False then Inl HTTP_401_UNAUTHORIZED
              else Inr \<lparr>username = PStr (m_username md), email = PStr (m_email md),
                         hashed_password = PStr '''', is_active = PBool True,
                         role = get_default payload ''role'' (PStr ''user'')\<rparr>))"
proof (cases "find_one (\<lambda>d. PStr (u_username d) = sub) (users_collection s)")
  case (Some ud)
  then have "lookup_principal s sub =
      Inr (Some \<lparr>username = PStr (u_username ud), email = PStr (u_email ud),
                 hashed_password = PStr (u_hashed_password ud),
                 is_active = (case u_is_active ud of None \<Rightarrow> PBool True | Some b \<Rightarrow> PBool b),
                 role = (case u_role ud of None \<Rightarrow> PStr ''user'' | Some r \<Rightarrow> PStr r)\<rparr>)"
    by (simp add: lookup_principal_def get_user_def)
  with assms Some show ?thesis
    by (cases "u_is_active ud")
      (auto simp: get_current_user_def decode_token_cases get_default_def split: option.splits)
next
  case None
  then have nou: "get_user s sub = None"
    by (simp add: get_user_def)
  show ?thesis
  proof (cases "find_one (\<lambda>d. PStr (m_username d) = sub) (manufacturers_collection s)")
    case no_manufacturer: None
    then have "get_manufacturer s sub = None"
      by (simp add: get_manufacturer_None)
    with nou have "lookup_principal s sub = Inr None"
      by (rule lookup_principal_neither)
    with assms None no_manufacturer show ?thesis
      by (simp add: get_current_user_def decode_token_cases)
  next
    case (Some md)
    note lookup_principal_manufacturer_doc [OF nou Some]
    with assms None Some show ?thesis
      by (cases "m_is_active md")
        (auto simp: get_current_user_def decode_token_cases get_default_def split: option.splits)
  qed
qed

lemmas demo_simps =
  demo_env_def demo_store_def demo_verify_def demo_decode_def
  find_one_def get_user_def get_manufacturer_def getitem_def get_default_def
  verify_password_def get_password_hash_def

section \<open>Authentication against the two stores\<close>

text \<open>
  \<^bold>\<open>C1\<close> (\<^verbatim>\<open>authenticate_user\<close>, manufacturer branch). The claim: for a username absent
  from the user store and present in the manufacturer store, \<^verbatim>\<open>authenticate_user\<close>
  returns a principal with role \<^verbatim>\<open>"manufacturer"\<close> when the password matches the stored
  hash. The code does not: the dictionary of \<^verbatim>\<open>get_manufacturer\<close> has no
  \<^verbatim>\<open>hashed_password\<close> key, so the password is verified against the empty string, and
  where that verification succeeds the constructor's argument
  \<^verbatim>\<open>manufacturer["hashed_password"]\<close> raises \<^verbatim>\<open>KeyError\<close>. Whatever the password
  context does, no principal is returned on this branch.
\<close>

theorem authenticate_user_manufacturer_branch:
  assumes "get_user s (PStr uname) = None"
    and "get_manufacturer s (PStr uname) = Some m"
  shows "authenticate_user E s uname password =
           (case pwd_verify E password (PStr '''') of
              Inl e \<Rightarrow> Inl e
            | Inr ok \<Rightarrow> if ok then Inl (KeyError ''hashed_password'') else Inr AuthFalse)
         \<and> (\<forall>u. authenticate_user E s uname password \<noteq> Inr (AuthUser u))"
proof -
  from assms(2) obtain md where
    "find_one (\<lambda>d. PStr (m_username d) = PStr uname) (manufacturers_collection s) = Some md"
    "m ''username'' = Some (PStr (m_username md))"
    "m ''email'' = Some (PStr (m_email md))"
    "m ''hashed_password'' = None"
    "m ''is_active'' = Some (PBool (case m_is_active md of None \<Rightarrow> True | Some b \<Rightarrow> b))"
    "m ''role'' = Some (PStr ''manufacturer'')"
    by (rule get_manufacturer_Some)
  with assms have eq: "authenticate_user E s uname password =
           (case pwd_verify E password (PStr '''') of
              Inl e \<Rightarrow> Inl e
            | Inr ok \<Rightarrow> if ok then Inl (KeyError ''hashed_password'') else Inr AuthFalse)"
    by (simp add: authenticate_user_def verify_password_def get_default_def getitem_def
        split: sum.splits bool.splits)
  have "\<forall>u. authenticate_user E s uname password \<noteq> Inr (AuthUser u)"
    unfolding eq by (simp split: sum.splits)
  with eq show ?thesis by blast
qed

theorem authenticate_user_manufacturer_branch_witness:
  "get_user demo_store (PStr ''acme'') = None
   \<and> (\<exists>m. get_manufacturer demo_store (PStr ''acme'') = Some m)
   \<and> m_hashed_password (manufacturers_collection demo_store ! 0) = pwd_hash demo_env ''s3cret''
   \<and> authenticate_user demo_env demo_store ''acme'' ''s3cret'' = Inl PasslibError
   \<and> authenticate_manufacturer demo_env demo_store ''acme'' ''s3cret'' =
       Inr (AuthUser \<lparr>username = PStr ''acme'', email = PStr ''it@acme.example'',
                      hashed_password = PStr ''$plain$s3cret'', is_active = PBool True,
                      role = PStr ''manufacturer''\<rparr>)"
proof -
  have u: "get_user demo_store (PStr ''acme'') = None"
    by (simp add: demo_simps)
  obtain m where m: "get_manufacturer demo_store (PStr ''acme'') = Some m"
    by (simp add: demo_simps)
  have "authenticate_user demo_env demo_store ''acme'' ''s3cret'' = Inl PasslibError"
    using authenticate_user_manufacturer_branch [OF u m, of demo_env "''s3cret''"]
    by (simp add: demo_env_def demo_verify_def)
  moreover have "authenticate_manufacturer demo_env demo_store ''acme'' ''s3cret'' =
       Inr (AuthUser \<lparr>username = PStr ''acme'', email = PStr ''it@acme.example'',
                      hashed_password = PStr ''$plain$s3cret'', is_active = PBool True,
                      role = PStr ''manufacturer''\<rparr>)"
    by (simp add: authenticate_manufacturer_def demo_simps)
  moreover have
    "m_hashed_password (manufacturers_collection demo_store ! 0) = pwd_hash demo_env ''s3cret''"
    by (simp add: demo_env_def demo_store_def)
  ultimately show ?thesis using u m by blast
qed

section \<open>The super-admin guard and the bootstrap\<close>

text \<open>
  \<^bold>\<open>C7\<close> (\<^verbatim>\<open>get_super_admin_user\<close>). For every principal the guard fails with the
  403 exception exactly when the role is not \<^verbatim>\<open>"super_admin"\<close>, and otherwise returns
  the principal unchanged; it never fails with the 401 credentials exception.
\<close>

theorem get_super_admin_user_forbidden_iff:
  "(get_super_admin_user p = Inl HTTP_403_FORBIDDEN) = (role p \<noteq> PStr ''super_admin'')
   \<and> (get_super_admin_user p = Inr p) = (role p = PStr ''super_admin'')
   \<and> get_super_admin_user p \<noteq> Inl HTTP_401_UNAUTHORIZED
   \<and> HTTP_403_FORBIDDEN \<noteq> HTTP_401_UNAUTHORIZED"
  by (simp add: get_super_admin_user_def)

text \<open>
  \<^bold>\<open>C8\<close> (\<^verbatim>\<open>init_super_admin\<close>). Running the bootstrap a second time, whatever ObjectId,
  clock and password context the second run sees, leaves the store of the first run; the
  number of records with the super-admin username after two runs is the number before, or
  one when there was none; and the record is inserted only when no record with that
  username exists.
\<close>

theorem init_super_admin_idempotent:
  "init_super_admin E' oid' t' (init_super_admin E oid t s) = init_super_admin E oid t s
   \<and> length (filter (\<lambda>d. u_username d = SUPER_ADMIN_USERNAME)
        (users_collection (init_super_admin E' oid' t' (init_super_admin E oid t s))))
     = max 1 (length (filter (\<lambda>d. u_username d = SUPER_ADMIN_USERNAME) (users_collection s)))
   \<and> init_super_admin E oid t s =
       (if \<exists>d\<in>set (users_collection s). u_username d = SUPER_ADMIN_USERNAME then s
        else s\<lparr>users_collection := users_collection s @
               [\<lparr>u_id = oid, u_username = SUPER_ADMIN_USERNAME,
                 u_email = ''admin@hospital-device-risk.com'',
                 u_hashed_password = pwd_hash E ''admin123'',
                 u_is_active = Some True, u_role = Some ''super_admin'',
                 u_created_at = t\<rparr>]\<rparr>)"
proof (cases "find_one (\<lambda>d. u_username d = SUPER_ADMIN_USERNAME) (users_collection s)")
  case None
  let ?adm = "\<lparr>u_id = oid, u_username = SUPER_ADMIN_USERNAME,
                 u_email = ''admin@hospital-device-risk.com'',
                 u_hashed_password = pwd_hash E ''admin123'',
                 u_is_active = Some True, u_role = Some ''super_admin'',
                 u_created_at = t\<rparr>"
  let ?s1 = "s\<lparr>users_collection := users_collection s @ [?adm]\<rparr>"
  from None have absent: "\<not> (\<exists>d\<in>set (users_collection s). u_username d = SUPER_ADMIN_USERNAME)"
    by (simp add: find_one_None_iff)
  from None have once: "init_super_admin E oid t s = ?s1"
    by (simp add: init_super_admin_def insert_one_def get_password_hash_def)
  have "find_one (\<lambda>d. u_username d = SUPER_ADMIN_USERNAME) (users_collection ?s1) = Some ?adm"
    using None by (simp add: find_one_append) (simp add: find_one_def)
  then have twice: "init_super_admin E' oid' t' ?s1 = ?s1"
    by (simp add: init_super_admin_def)
  from absent have "filter (\<lambda>d. u_username d = SUPER_ADMIN_USERNAME) (users_collection s) = []"
    by (simp add: filter_empty_conv)
  then have count: "length (filter (\<lambda>d. u_username d = SUPER_ADMIN_USERNAME) (users_collection ?s1))
      = max 1 (length (filter (\<lambda>d. u_username d = SUPER_ADMIN_USERNAME) (users_collection s)))"
    by simp
  show ?thesis
    unfolding once twice using absent count by simp
next
  case (Some d)
  then have present: "\<exists>d\<in>set (users_collection s). u_username d = SUPER_ADMIN_USERNAME"
    by (auto dest: find_one_Some_holds)
  from Some have once: "init_super_admin E oid t s = s" "init_super_admin E' oid' t' s = s"
    by (simp_all add: init_super_admin_def)
  from present have "filter (\<lambda>d. u_username d = SUPER_ADMIN_USERNAME) (users_collection s) \<noteq> []"
    by (simp add: filter_empty_conv)
  then have "1 \<le> length (filter (\<lambda>d. u_username d = SUPER_ADMIN_USERNAME) (users_collection s))"
    by (cases "filter (\<lambda>d. u_username d = SUPER_ADMIN_USERNAME) (users_collection s)") simp_all
  then show ?thesis
    unfolding once using present by (simp add: max_def)
qed

section \<open>Resolving a token to a principal\<close>

text \<open>
  \<^bold>\<open>C3\<close> (\<^verbatim>\<open>get_current_user\<close>, failure cases). The call raises the 401 credentials
  exception exactly when decoding raises a \<^verbatim>\<open>JWTError\<close> (bad signature, malformed or
  expired token), or the payload has no \<^verbatim>\<open>sub\<close>, or neither collection holds a document
  with the subject as username, or the resolved document has \<^verbatim>\<open>is_active\<close> false. The
  resolved document is the first one of the user collection with that username, or,
  when the user collection holds none, the first one of the manufacturer collection. In
  every other case the call returns a principal; no other exception leaves the function.
\<close>

theorem get_current_user_unauthorized_iff:
  fixes E :: "'tok env" and s :: store and now :: int and token :: 'tok
  defines "D \<equiv> jwt_decode E now token (SECRET_KEY E) [ALGORITHM E]"
  defines "no_user \<equiv> \<lambda>sub. \<forall>d\<in>set (users_collection s). PStr (u_username d) \<noteq> sub"
  defines "no_manufacturer \<equiv>
     \<lambda>sub. \<forall>d\<in>set (manufacturers_collection s). PStr (m_username d) \<noteq> sub"
  defines "user_document \<equiv> \<lambda>sub ud.
     \<exists>pre post. users_collection s = pre @ ud # post \<and> PStr (u_username ud) = sub
       \<and> (\<forall>d\<in>set pre. PStr (u_username d) \<noteq> sub)"
  defines "manufacturer_document \<equiv> \<lambda>sub md.
     \<exists>pre post. manufacturers_collection s = pre @ md # post \<and> PStr (m_username md) = sub
       \<and> (\<forall>d\<in>set pre. PStr (m_username d) \<noteq> sub)"
  defines "invalid \<equiv>
     (\<exists>e. D = Inl e)
   \<or> (\<exists>payload. D = Inr payload \<and> payload ''sub'' = None)
   \<or> (\<exists>payload sub. D = Inr payload \<and> payload ''sub'' = Some sub
         \<and> no_user sub \<and> no_manufacturer sub)
   \<or> (\<exists>payload sub ud. D = Inr payload \<and> payload ''sub'' = Some sub
         \<and> user_document sub ud \<and> u_is_active ud = Some False)
   \<or> (\<exists>payload sub md. D = Inr payload \<and> payload ''sub'' = Some sub
         \<and> no_user sub \<and> manufacturer_document sub md \<and> m_is_active md = Some False)"
  shows "(get_current_user E s now token = Inl HTTP_401_UNAUTHORIZED) = invalid
       \<and> (\<exists>usr. get_current_user E s now token = Inr usr) = (\<not> invalid)"
proof -
  have nu: "no_user sub =
      (find_one (\<lambda>d. PStr (u_username d) = sub) (users_collection s) = None)" for sub
    by (auto simp: no_user_def find_one_None_iff)
  have nm: "no_manufacturer sub =
      (find_one (\<lambda>d. PStr (m_username d) = sub) (manufacturers_collection s) = None)" for sub
    by (auto simp: no_manufacturer_def find_one_None_iff)
  have ud: "user_document sub ud =
      (find_one (\<lambda>d. PStr (u_username d) = sub) (users_collection s) = Some ud)" for sub ud
    by (simp add: user_document_def find_one_first_match)
  have md: "manufacturer_document sub md =
      (find_one (\<lambda>d. PStr (m_username d) = sub) (manufacturers_collection s) = Some md)"
    for sub md
    by (simp add: manufacturer_document_def find_one_first_match)
  show ?thesis
  proof (cases D)
    case (Inl e)
    then have "get_current_user E s now token = Inl HTTP_401_UNAUTHORIZED"
      by (simp add: get_current_user_def decode_token_cases D_def)
    moreover from Inl have invalid
      by (simp add: invalid_def)
    ultimately show ?thesis by simp
  next
    case (Inr payload)
    note D = this
    show ?thesis
    proof (cases "payload ''sub''")
      case None
      with D have "get_current_user E s now token = Inl HTTP_401_UNAUTHORIZED"
        by (simp add: get_current_user_def decode_token_cases D_def)
      moreover from D None have invalid
        by (simp add: invalid_def)
      ultimately show ?thesis by simp
    next
      case (Some sub)
      from D Some have inv: "invalid =
          ((no_user sub \<and> no_manufacturer sub)
           \<or> (\<exists>ud. user_document sub ud \<and> u_is_active ud = Some False)
           \<or> (\<exists>md. no_user sub \<and> manufacturer_document sub md \<and> m_is_active md = Some False))"
        by (simp add: invalid_def)
      from D have dec: "jwt_decode E now token (SECRET_KEY E) [ALGORITHM E] = Inr payload"
        by (simp add: D_def)
      note gcu = get_current_user_by_documents [OF dec Some, of s]
      show ?thesis
      proof (cases "find_one (\<lambda>d. PStr (u_username d) = sub) (users_collection s)")
        case (Some u)
        then show ?thesis
          unfolding inv nu nm ud md gcu by simp
      next
        case None
        note no_u = this
        show ?thesis
        proof (cases "find_one (\<lambda>d. PStr (m_username d) = sub) (manufacturers_collection s)")
          case None
          with no_u show ?thesis
            unfolding inv nu nm ud md gcu by simp
        next
          case (Some m)
          with no_u show ?thesis
            unfolding inv nu nm ud md gcu by simp
        qed
      qed
    qed
  qed
qed

text \<open>
  On the store above, with validly signed tokens read at time 100: the token of the
  inactive user \<^verbatim>\<open>bob\<close> is rejected (here through the theorem, \<^verbatim>\<open>bob\<close> being the first
  document of the user collection), as are the token of the inactive manufacturer
  \<^verbatim>\<open>old\<close>, a token for a username in neither collection, a token without \<^verbatim>\<open>sub\<close>, a
  garbled token and an expired one; the tokens of the active super admin and of the
  active manufacturer \<^verbatim>\<open>acme\<close> are accepted.
\<close>

theorem get_current_user_unauthorized_iff_witness:
  "get_current_user demo_env demo_store 100
       (Token [''sub'' \<mapsto> PStr ''bob'', ''role'' \<mapsto> PStr ''user'', ''exp'' \<mapsto> PInt 1000]
          ''k'' ''HS256'')
     = Inl HTTP_401_UNAUTHORIZED
   \<and> get_current_user demo_env demo_store 100
       (Token [''sub'' \<mapsto> PStr ''old'', ''role'' \<mapsto> PStr ''manufacturer'', ''exp'' \<mapsto> PInt 1000]
          ''k'' ''HS256'')
     = Inl HTTP_401_UNAUTHORIZED
   \<and> get_current_user demo_env demo_store 100
       (Token [''sub'' \<mapsto> PStr ''nobody'', ''role'' \<mapsto> PStr ''user'', ''exp'' \<mapsto> PInt 1000]
          ''k'' ''HS256'')
     = Inl HTTP_401_UNAUTHORIZED
   \<and> get_current_user demo_env demo_store 100
       (Token [''role'' \<mapsto> PStr ''user'', ''exp'' \<mapsto> PInt 1000] ''k'' ''HS256'')
     = Inl HTTP_401_UNAUTHORIZED
   \<and> get_current_user demo_env demo_store 100 Garbled = Inl HTTP_401_UNAUTHORIZED
   \<and> get_current_user demo_env demo_store 100
       (Token [''sub'' \<mapsto> PStr ''admin'', ''role'' \<mapsto> PStr ''super_admin'', ''exp'' \<mapsto> PInt 99]
          ''k'' ''HS256'')
     = Inl HTTP_401_UNAUTHORIZED
   \<and> get_current_user demo_env demo_store 100
       (Token [''sub'' \<mapsto> PStr ''admin'', ''role'' \<mapsto> PStr ''super_admin'', ''exp'' \<mapsto> PInt 1000]
          ''k'' ''HS256'')
     = Inr \<lparr>username = PStr ''admin'', email = PStr ''admin@hospital-device-risk.com'',
            hashed_password = PStr ''$plain$admin123'', is_active = PBool True,
            role = PStr ''super_admin''\<rparr>
   \<and> get_current_user demo_env demo_store 100
       (Token [''sub'' \<mapsto> PStr ''acme'', ''role'' \<mapsto> PStr ''manufacturer'', ''exp'' \<mapsto> PInt 1000]
          ''k'' ''HS256'')
     = Inr \<lparr>username = PStr ''acme'', email = PStr ''it@acme.example'',
            hashed_password = PStr '''', is_active = PBool True,
            role = PStr ''manufacturer''\<rparr>"
proof -
  let ?pb = "[''sub'' \<mapsto> PStr ''bob'', ''role'' \<mapsto> PStr ''user'', ''exp'' \<mapsto> PInt 1000]"
  let ?bob = "users_collection demo_store ! 0"
  have dec: "jwt_decode demo_env 100 (Token ?pb ''k'' ''HS256'')
      (SECRET_KEY demo_env) [ALGORITHM demo_env] = Inr ?pb"
    by (simp add: demo_env_def demo_decode_def)
  have sub: "?pb ''sub'' = Some (PStr ''bob'')"
    by simp
  have "users_collection demo_store = [] @ ?bob # tl (users_collection demo_store)
      \<and> PStr (u_username ?bob) = PStr ''bob''
      \<and> (\<forall>d\<in>set []. PStr (u_username d) \<noteq> PStr ''bob'')"
    by (simp add: demo_store_def)
  then have first: "\<exists>pre post. users_collection demo_store = pre @ ?bob # post
      \<and> PStr (u_username ?bob) = PStr ''bob''
      \<and> (\<forall>d\<in>set pre. PStr (u_username d) \<noteq> PStr ''bob'')"
    by blast
  have inactive: "u_is_active ?bob = Some False"
    by (simp add: demo_store_def)
  have "\<exists>payload sub ud.
      jwt_decode demo_env 100 (Token ?pb ''k'' ''HS256'')
        (SECRET_KEY demo_env) [ALGORITHM demo_env] = Inr payload
      \<and> payload ''sub'' = Some sub
      \<and> (\<exists>pre post. users_collection demo_store = pre @ ud # post
            \<and> PStr (u_username ud) = sub
            \<and> (\<forall>d\<in>set pre. PStr (u_username d) \<noteq> sub))
      \<and> u_is_active ud = Some False"
    using dec sub first inactive by blast
  then have bob: "get_current_user demo_env demo_store 100 (Token ?pb ''k'' ''HS256'')
      = Inl HTTP_401_UNAUTHORIZED"
    using get_current_user_unauthorized_iff
      [of demo_env demo_store 100 "Token ?pb ''k'' ''HS256''"]
    by blast
  have rest:
    "get_current_user demo_env demo_store 100
       (Token [''sub'' \<mapsto> PStr ''old'', ''role'' \<mapsto> PStr ''manufacturer'', ''exp'' \<mapsto> PInt 1000]
          ''k'' ''HS256'')
     = Inl HTTP_401_UNAUTHORIZED"
    "get_current_user demo_env demo_store 100
       (Token [''sub'' \<mapsto> PStr ''nobody'', ''role'' \<mapsto> PStr ''user'', ''exp'' \<mapsto> PInt 1000]
          ''k'' ''HS256'')
     = Inl HTTP_401_UNAUTHORIZED"
    "get_current_user demo_env demo_store 100
       (Token [''role'' \<mapsto> PStr ''user'', ''exp'' \<mapsto> PInt 1000] ''k'' ''HS256'')
     = Inl HTTP_401_UNAUTHORIZED"
    "get_current_user demo_env demo_store 100 Garbled = Inl HTTP_401_UNAUTHORIZED"
    "get_current_user demo_env demo_store 100
       (Token [''sub'' \<mapsto> PStr ''admin'', ''role'' \<mapsto> PStr ''super_admin'', ''exp'' \<mapsto> PInt 99]
          ''k'' ''HS256'')
     = Inl HTTP_401_UNAUTHORIZED"
    "get_current_user demo_env demo_store 100
       (Token [''sub'' \<mapsto> PStr ''admin'', ''role'' \<mapsto> PStr ''super_admin'', ''exp'' \<mapsto> PInt 1000]
          ''k'' ''HS256'')
     = Inr \<lparr>username = PStr ''admin'', email = PStr ''admin@hospital-device-risk.com'',
            hashed_password = PStr ''$plain$admin123'', is_active = PBool True,
            role = PStr ''super_admin''\<rparr>"
    "get_current_user demo_env demo_store 100
       (Token [''sub'' \<mapsto> PStr ''acme'', ''role'' \<mapsto> PStr ''manufacturer'', ''exp'' \<mapsto> PInt 1000]
          ''k'' ''HS256'')
     = Inr \<lparr>username = PStr ''acme'', email = PStr ''it@acme.example'',
            hashed_password = PStr '''', is_active = PBool True,
            role = PStr ''manufacturer''\<rparr>"
    by (simp_all add: get_current_user_def decode_token_def lookup_principal_def Let_def
        demo_simps)
  from bob rest show ?thesis by blast
qed

text \<open>
  \<^bold>\<open>C4\<close> (\<^verbatim>\<open>get_current_user\<close>, role override). Whenever the call returns a principal
  for a token whose payload has the role claim \<open>R\<close>, the principal's role is \<open>R\<close>,
  whatever role the store holds for the username.
\<close>

theorem get_current_user_role_from_token:
  assumes "jwt_decode E now token (SECRET_KEY E) [ALGORITHM E] = Inr payload"
    and "payload ''role'' = Some R"
    and "get_current_user E s now token = Inr usr"
  shows "role usr = R"
  using assms
  by (auto simp: get_current_user_def decode_token_cases
      split: option.splits sum.splits if_splits)

text \<open>
  The super admin's stored role is \<^verbatim>\<open>"super_admin"\<close>; a token for \<^verbatim>\<open>admin\<close> with the
  role claim \<^verbatim>\<open>"user"\<close> resolves to a principal with role \<^verbatim>\<open>"user"\<close>.
\<close>

theorem get_current_user_role_from_token_witness:
  "jwt_decode demo_env 100
       (Token [''sub'' \<mapsto> PStr ''admin'', ''role'' \<mapsto> PStr ''user'', ''exp'' \<mapsto> PInt 1000]
          ''k'' ''HS256'')
       (SECRET_KEY demo_env) [ALGORITHM demo_env]
     = Inr [''sub'' \<mapsto> PStr ''admin'', ''role'' \<mapsto> PStr ''user'', ''exp'' \<mapsto> PInt 1000]
   \<and> map_option role (get_user demo_store (PStr ''admin'')) = Some (PStr ''super_admin'')
   \<and> get_current_user demo_env demo_store 100
       (Token [''sub'' \<mapsto> PStr ''admin'', ''role'' \<mapsto> PStr ''user'', ''exp'' \<mapsto> PInt 1000]
          ''k'' ''HS256'')
     = Inr \<lparr>username = PStr ''admin'', email = PStr ''admin@hospital-device-risk.com'',
            hashed_password = PStr ''$plain$admin123'', is_active = PBool True,
            role = PStr ''user''\<rparr>"
proof -
  let ?payload = "[''sub'' \<mapsto> PStr ''admin'', ''role'' \<mapsto> PStr ''user'', ''exp'' \<mapsto> PInt 1000]"
  let ?tok = "Token ?payload ''k'' ''HS256''"
  let ?usr = "\<lparr>username = PStr ''admin'', email = PStr ''admin@hospital-device-risk.com'',
            hashed_password = PStr ''$plain$admin123'', is_active = PBool True,
            role = PStr ''user''\<rparr>"
  have dec: "jwt_decode demo_env 100 ?tok (SECRET_KEY demo_env) [ALGORITHM demo_env] = Inr ?payload"
    by (simp add: demo_env_def demo_decode_def)
  have r: "?payload ''role'' = Some (PStr ''user'')"
    by simp
  have stored: "map_option role (get_user demo_store (PStr ''admin'')) = Some (PStr ''super_admin'')"
    by (simp add: demo_simps)
  have gcu: "get_current_user demo_env demo_store 100 ?tok = Inr ?usr"
    by (simp add: get_current_user_def decode_token_cases dec lookup_principal_def demo_simps)
  have "role ?usr = PStr ''user''"
    by (rule get_current_user_role_from_token [OF dec r gcu])
  with dec stored gcu show ?thesis by blast
qed

section \<open>Inactive principals\<close>

text \<open>
  \<^bold>\<open>C2\<close> (\<^verbatim>\<open>is_active\<close>). The claim: for a stored record whose \<^verbatim>\<open>is_active\<close> is false,
  \<^verbatim>\<open>authenticate_user\<close> and \<^verbatim>\<open>authenticate_manufacturer\<close> never return the principal,
  and \<^verbatim>\<open>get_current_user\<close> rejects any token for it. Both halves fail as stated.
  Neither authentication function reads \<^verbatim>\<open>is_active\<close>: the inactive user \<^verbatim>\<open>bob\<close> and
  the inactive manufacturers \<^verbatim>\<open>old\<close> and \<^verbatim>\<open>carol\<close> are returned for their passwords.
  And \<^verbatim>\<open>get_current_user\<close> consults the manufacturer collection only when the user
  collection has no record: a validly signed, unexpired token with the username and
  role of the inactive manufacturer \<^verbatim>\<open>carol\<close> is accepted, resolved to the active user
  of the same username.
\<close>

theorem inactive_principal_returned_or_shadowed:
  "u_is_active (users_collection demo_store ! 0) = Some False
   \<and> authenticate_user demo_env demo_store ''bob'' ''pw'' =
       Inr (AuthUser \<lparr>username = PStr ''bob'', email = PStr ''bob@example.org'',
                      hashed_password = PStr ''$plain$pw'', is_active = PBool False,
                      role = PStr ''user''\<rparr>)
   \<and> m_is_active (manufacturers_collection demo_store ! 2) = Some False
   \<and> authenticate_manufacturer demo_env demo_store ''old'' ''pw3'' =
       Inr (AuthUser \<lparr>username = PStr ''old'', email = PStr ''old@maker.example'',
                      hashed_password = PStr ''$plain$pw3'', is_active = PBool False,
                      role = PStr ''manufacturer''\<rparr>)
   \<and> m_username (manufacturers_collection shadow_store ! 0) = ''carol''
   \<and> m_is_active (manufacturers_collection shadow_store ! 0) = Some False
   \<and> authenticate_manufacturer demo_env shadow_store ''carol'' ''pw2'' =
       Inr (AuthUser \<lparr>username = PStr ''carol'', email = PStr ''carol@maker.example'',
                      hashed_password = PStr ''$plain$pw2'', is_active = PBool False,
                      role = PStr ''manufacturer''\<rparr>)
   \<and> jwt_decode demo_env 100
        (Token [''sub'' \<mapsto> PStr ''carol'', ''role'' \<mapsto> PStr ''manufacturer'',
                ''exp'' \<mapsto> PInt 1000] ''k'' ''HS256'')
        (SECRET_KEY demo_env) [ALGORITHM demo_env]
       = Inr [''sub'' \<mapsto> PStr ''carol'', ''role'' \<mapsto> PStr ''manufacturer'',
              ''exp'' \<mapsto> PInt 1000]
   \<and> get_current_user demo_env shadow_store 100
        (Token [''sub'' \<mapsto> PStr ''carol'', ''role'' \<mapsto> PStr ''manufacturer'',
                ''exp'' \<mapsto> PInt 1000] ''k'' ''HS256'')
       = Inr \<lparr>username = PStr ''carol'', email = PStr ''carol@example.org'',
              hashed_password = PStr ''$plain$pw'', is_active = PBool True,
              role = PStr ''manufacturer''\<rparr>"
proof -
  have "u_is_active (users_collection demo_store ! 0) = Some False"
    by (simp add: demo_store_def)
  moreover have "authenticate_user demo_env demo_store ''bob'' ''pw'' =
       Inr (AuthUser \<lparr>username = PStr ''bob'', email = PStr ''bob@example.org'',
                      hashed_password = PStr ''$plain$pw'', is_active = PBool False,
                      role = PStr ''user''\<rparr>)"
    by (simp add: authenticate_user_def demo_simps)
  moreover have "m_is_active (manufacturers_collection demo_store ! 2) = Some False"
    by (simp add: demo_store_def)
  moreover have "authenticate_manufacturer demo_env demo_store ''old'' ''pw3'' =
       Inr (AuthUser \<lparr>username = PStr ''old'', email = PStr ''old@maker.example'',
                      hashed_password = PStr ''$plain$pw3'', is_active = PBool False,
                      role = PStr ''manufacturer''\<rparr>)"
    by (simp add: authenticate_manufacturer_def demo_simps)
  moreover have "m_username (manufacturers_collection shadow_store ! 0) = ''carol''"
    "m_is_active (manufacturers_collection shadow_store ! 0) = Some False"
    by (simp_all add: shadow_store_def)
  moreover have "authenticate_manufacturer demo_env shadow_store ''carol'' ''pw2'' =
       Inr (AuthUser \<lparr>username = PStr ''carol'', email = PStr ''carol@maker.example'',
                      hashed_password = PStr ''$plain$pw2'', is_active = PBool False,
                      role = PStr ''manufacturer''\<rparr>)"
    by (simp add: authenticate_manufacturer_def shadow_store_def demo_env_def demo_verify_def
        find_one_def verify_password_def)
  moreover have "jwt_decode demo_env 100
        (Token [''sub'' \<mapsto> PStr ''carol'', ''role'' \<mapsto> PStr ''manufacturer'',
                ''exp'' \<mapsto> PInt 1000] ''k'' ''HS256'')
        (SECRET_KEY demo_env) [ALGORITHM demo_env]
       = Inr [''sub'' \<mapsto> PStr ''carol'', ''role'' \<mapsto> PStr ''manufacturer'',
              ''exp'' \<mapsto> PInt 1000]"
    by (simp add: demo_env_def demo_decode_def)
  moreover have "get_current_user demo_env shadow_store 100
        (Token [''sub'' \<mapsto> PStr ''carol'', ''role'' \<mapsto> PStr ''manufacturer'',
                ''exp'' \<mapsto> PInt 1000] ''k'' ''HS256'')
       = Inr \<lparr>username = PStr ''carol'', email = PStr ''carol@example.org'',
              hashed_password = PStr ''$plain$pw'', is_active = PBool True,
              role = PStr ''manufacturer''\<rparr>"
    by (simp add: get_current_user_def decode_token_def lookup_principal_def Let_def
        get_user_def get_default_def shadow_store_def demo_env_def demo_decode_def find_one_def)
  ultimately show ?thesis by blast
qed

text \<open>
  What holds (C2 as amended): the gate is in \<^verbatim>\<open>get_current_user\<close>, on the record the
  lookup resolves. If the record resolved for the token's subject (the user store's first
  record for the username, or the manufacturer store's when the user store has none) has
  \<^verbatim>\<open>is_active\<close> false, a validly signed, unexpired token for it is rejected with the 401
  credentials exception; an inactive manufacturer whose username the user store also
  holds is not the record resolved. The authentication functions do not consult
  \<^verbatim>\<open>is_active\<close>: when the password verifies, \<^verbatim>\<open>authenticate_user\<close> returns the
  inactive user and \<^verbatim>\<open>authenticate_manufacturer\<close> the inactive manufacturer, each
  with \<^verbatim>\<open>is_active\<close> false.
\<close>

theorem inactive_principal_gated_by_get_current_user:
  fixes E :: "'tok env"
  shows
  "(find_one (\<lambda>d. u_username d = uname) (users_collection s) = Some ud
      \<and> u_is_active ud = Some False \<longrightarrow>
        (jwt_decode E now token (SECRET_KEY E) [ALGORITHM E] = Inr payload
           \<and> payload ''sub'' = Some (PStr uname)
           \<longrightarrow> get_current_user E s now token = Inl HTTP_401_UNAUTHORIZED)
      \<and> (pwd_verify E password (PStr (u_hashed_password ud)) = Inr True
           \<longrightarrow> authenticate_user E s uname password =
                 Inr (AuthUser \<lparr>username = PStr (u_username ud), email = PStr (u_email ud),
                        hashed_password = PStr (u_hashed_password ud),
                        is_active = PBool False,
                        role = (case u_role ud of None \<Rightarrow> PStr ''user'' | Some r \<Rightarrow> PStr r)\<rparr>)))
   \<and> (find_one (\<lambda>d. m_username d = uname) (manufacturers_collection s) = Some md
      \<and> m_is_active md = Some False \<longrightarrow>
        (find_one (\<lambda>d. u_username d = uname) (users_collection s) = None
           \<and> jwt_decode E now token (SECRET_KEY E) [ALGORITHM E] = Inr payload
           \<and> payload ''sub'' = Some (PStr uname)
           \<longrightarrow> get_current_user E s now token = Inl HTTP_401_UNAUTHORIZED)
      \<and> (pwd_verify E password (PStr (m_hashed_password md)) = Inr True
           \<longrightarrow> authenticate_manufacturer E s uname password =
                 Inr (AuthUser \<lparr>username = PStr (m_username md), email = PStr (m_email md),
                        hashed_password = PStr (m_hashed_password md),
                        is_active = PBool False,
                        role = (case m_role md of None \<Rightarrow> PStr ''manufacturer''
                                | Some r \<Rightarrow> PStr r)\<rparr>)))"
proof (intro conjI impI; (elim conjE)?)
  assume ud: "find_one (\<lambda>d. u_username d = uname) (users_collection s) = Some ud"
    and ia: "u_is_active ud = Some False"
  then have usr: "get_user s (PStr uname) =
      Some \<lparr>username = PStr (u_username ud), email = PStr (u_email ud),
            hashed_password = PStr (u_hashed_password ud), is_active = PBool False,
            role = (case u_role ud of None \<Rightarrow> PStr ''user'' | Some r \<Rightarrow> PStr r)\<rparr>"
    by (simp add: get_user_def)
  {
    assume "jwt_decode E now token (SECRET_KEY E) [ALGORITHM E] = Inr payload"
      and "payload ''sub'' = Some (PStr uname)"
    then show "get_current_user E s now token = Inl HTTP_401_UNAUTHORIZED"
      by (simp add: get_current_user_def decode_token_cases lookup_principal_user [OF usr])
  }
  {
    assume "pwd_verify E password (PStr (u_hashed_password ud)) = Inr True"
    then show "authenticate_user E s uname password =
                 Inr (AuthUser \<lparr>username = PStr (u_username ud), email = PStr (u_email ud),
                        hashed_password = PStr (u_hashed_password ud),
                        is_active = PBool False,
                        role = (case u_role ud of None \<Rightarrow> PStr ''user'' | Some r \<Rightarrow> PStr r)\<rparr>)"
      by (simp add: authenticate_user_def usr verify_password_def)
  }
next
  assume md: "find_one (\<lambda>d. m_username d = uname) (manufacturers_collection s) = Some md"
    and ia: "m_is_active md = Some False"
  {
    assume "find_one (\<lambda>d. u_username d = uname) (users_collection s) = None"
      and dec: "jwt_decode E now token (SECRET_KEY E) [ALGORITHM E] = Inr payload"
      and sub: "payload ''sub'' = Some (PStr uname)"
    then have "get_user s (PStr uname) = None"
      by (simp add: get_user_def)
    moreover from md
    have "find_one (\<lambda>d. PStr (m_username d) = PStr uname) (manufacturers_collection s) = Some md"
      by simp
    ultimately have "lookup_principal s (PStr uname) =
           Inr (Some \<lparr>username = PStr (m_username md), email = PStr (m_email md),
                      hashed_password = PStr '''',
                      is_active = PBool (case m_is_active md of None \<Rightarrow> True | Some b \<Rightarrow> b),
                      role = PStr ''manufacturer''\<rparr>)"
      by (rule lookup_principal_manufacturer_doc)
    with dec sub ia show "get_current_user E s now token = Inl HTTP_401_UNAUTHORIZED"
      by (simp add: get_current_user_def decode_token_cases)
  }
  {
    assume "pwd_verify E password (PStr (m_hashed_password md)) = Inr True"
    with md ia show "authenticate_manufacturer E s uname password =
                 Inr (AuthUser \<lparr>username = PStr (m_username md), email = PStr (m_email md),
                        hashed_password = PStr (m_hashed_password md),
                        is_active = PBool False,
                        role = (case m_role md of None \<Rightarrow> PStr ''manufacturer''
                                | Some r \<Rightarrow> PStr r)\<rparr>)"
      by (simp add: authenticate_manufacturer_def verify_password_def)
  }
qed

text \<open>
  The inactive user \<^verbatim>\<open>bob\<close> and the inactive manufacturer \<^verbatim>\<open>old\<close>: tokens for them,
  signed with the key and unexpired at time 100, are rejected.
\<close>

theorem inactive_principal_gated_by_get_current_user_witness:
  "find_one (\<lambda>d. u_username d = ''bob'') (users_collection demo_store) =
       Some (users_collection demo_store ! 0)
   \<and> u_is_active (users_collection demo_store ! 0) = Some False
   \<and> jwt_decode demo_env 100
        (Token [''sub'' \<mapsto> PStr ''bob'', ''role'' \<mapsto> PStr ''user'', ''exp'' \<mapsto> PInt 1000]
           ''k'' ''HS256'')
        (SECRET_KEY demo_env) [ALGORITHM demo_env]
       = Inr [''sub'' \<mapsto> PStr ''bob'', ''role'' \<mapsto> PStr ''user'', ''exp'' \<mapsto> PInt 1000]
   \<and> get_current_user demo_env demo_store 100
        (Token [''sub'' \<mapsto> PStr ''bob'', ''role'' \<mapsto> PStr ''user'', ''exp'' \<mapsto> PInt 1000]
           ''k'' ''HS256'')
       = Inl HTTP_401_UNAUTHORIZED
   \<and> find_one (\<lambda>d. m_username d = ''old'') (manufacturers_collection demo_store) =
       Some (manufacturers_collection demo_store ! 2)
   \<and> m_is_active (manufacturers_collection demo_store ! 2) = Some False
   \<and> find_one (\<lambda>d. u_username d = ''old'') (users_collection demo_store) = None
   \<and> get_current_user demo_env demo_store 100
        (Token [''sub'' \<mapsto> PStr ''old'', ''role'' \<mapsto> PStr ''manufacturer'', ''exp'' \<mapsto> PInt 1000]
           ''k'' ''HS256'')
       = Inl HTTP_401_UNAUTHORIZED"
proof -
  let ?pb = "[''sub'' \<mapsto> PStr ''bob'', ''role'' \<mapsto> PStr ''user'', ''exp'' \<mapsto> PInt 1000]"
  let ?po = "[''sub'' \<mapsto> PStr ''old'', ''role'' \<mapsto> PStr ''manufacturer'', ''exp'' \<mapsto> PInt 1000]"
  let ?ud = "users_collection demo_store ! 0"
  let ?md = "manufacturers_collection demo_store ! 2"
  have ud: "find_one (\<lambda>d. u_username d = ''bob'') (users_collection demo_store) = Some ?ud"
    by (simp add: demo_store_def find_one_def)
  have uia: "u_is_active ?ud = Some False"
    by (simp add: demo_store_def)
  have decb: "jwt_decode demo_env 100 (Token ?pb ''k'' ''HS256'')
      (SECRET_KEY demo_env) [ALGORITHM demo_env] = Inr ?pb"
    by (simp add: demo_env_def demo_decode_def)
  have subb: "?pb ''sub'' = Some (PStr ''bob'')"
    by simp
  have md: "find_one (\<lambda>d. m_username d = ''old'') (manufacturers_collection demo_store) = Some ?md"
    by (simp add: demo_store_def find_one_def)
  have mia: "m_is_active ?md = Some False"
    by (simp add: demo_store_def)
  have nou: "find_one (\<lambda>d. u_username d = ''old'') (users_collection demo_store) = None"
    by (simp add: demo_store_def find_one_def)
  have deco: "jwt_decode demo_env 100 (Token ?po ''k'' ''HS256'')
      (SECRET_KEY demo_env) [ALGORITHM demo_env] = Inr ?po"
    by (simp add: demo_env_def demo_decode_def)
  have subo: "?po ''sub'' = Some (PStr ''old'')"
    by simp
  have "get_current_user demo_env demo_store 100 (Token ?pb ''k'' ''HS256'')
       = Inl HTTP_401_UNAUTHORIZED"
    using inactive_principal_gated_by_get_current_user
      [where uname = "''bob''" and s = demo_store and ud = ?ud and E = demo_env and now = 100
         and token = "Token ?pb ''k'' ''HS256''" and payload = ?pb]
      ud uia decb subb
    by blast
  moreover have "get_current_user demo_env demo_store 100 (Token ?po ''k'' ''HS256'')
       = Inl HTTP_401_UNAUTHORIZED"
    using inactive_principal_gated_by_get_current_user
      [where uname = "''old''" and s = demo_store and md = ?md and E = demo_env and now = 100
         and token = "Token ?po ''k'' ''HS256''" and payload = ?po]
      md mia nou deco subo
    by blast
  ultimately show ?thesis
    using ud uia decb md mia nou by blast
qed

section \<open>A token without a role claim\<close>

text \<open>
  \<^bold>\<open>C10\<close> (\<^verbatim>\<open>get_current_user\<close>, missing role). The claim: a valid token with \<^verbatim>\<open>sub\<close> and
  no \<^verbatim>\<open>role\<close> is not rejected for the missing role, and if an active principal with the
  username exists in either store it is returned with role \<^verbatim>\<open>"user"\<close>. The last part
  fails where the username is in both stores: the user store's record is the one
  resolved. The store above has an active manufacturer \<^verbatim>\<open>bob\<close> and an inactive user
  \<^verbatim>\<open>bob\<close>; the token is rejected.
\<close>

theorem missing_role_active_manufacturer_shadowed:
  "jwt_decode demo_env 100
       (Token [''sub'' \<mapsto> PStr ''bob'', ''exp'' \<mapsto> PInt 1000] ''k'' ''HS256'')
       (SECRET_KEY demo_env) [ALGORITHM demo_env]
     = Inr [''sub'' \<mapsto> PStr ''bob'', ''exp'' \<mapsto> PInt 1000]
   \<and> [''sub'' \<mapsto> PStr ''bob'', ''exp'' \<mapsto> PInt 1000] ''role'' = None
   \<and> m_username (manufacturers_collection demo_store ! 1) = ''bob''
   \<and> m_is_active (manufacturers_collection demo_store ! 1) = Some True
   \<and> get_manufacturer demo_store (PStr ''bob'') =
       Some [''username'' \<mapsto> PStr ''bob'', ''email'' \<mapsto> PStr ''bob@maker.example'',
             ''company_name'' \<mapsto> PStr ''Bob Co'', ''is_active'' \<mapsto> PBool True,
             ''role'' \<mapsto> PStr ''manufacturer'']
   \<and> get_current_user demo_env demo_store 100
       (Token [''sub'' \<mapsto> PStr ''bob'', ''exp'' \<mapsto> PInt 1000] ''k'' ''HS256'')
     = Inl HTTP_401_UNAUTHORIZED"
proof -
  let ?p = "[''sub'' \<mapsto> PStr ''bob'', ''exp'' \<mapsto> PInt 1000]"
  have dec: "jwt_decode demo_env 100 (Token ?p ''k'' ''HS256'')
      (SECRET_KEY demo_env) [ALGORITHM demo_env] = Inr ?p"
    by (simp add: demo_env_def demo_decode_def)
  have "?p ''role'' = None"
    by simp
  moreover have "m_username (manufacturers_collection demo_store ! 1) = ''bob''"
    "m_is_active (manufacturers_collection demo_store ! 1) = Some True"
    by (simp_all add: demo_store_def)
  moreover have "get_manufacturer demo_store (PStr ''bob'') =
       Some [''username'' \<mapsto> PStr ''bob'', ''email'' \<mapsto> PStr ''bob@maker.example'',
             ''company_name'' \<mapsto> PStr ''Bob Co'', ''is_active'' \<mapsto> PBool True,
             ''role'' \<mapsto> PStr ''manufacturer'']"
    by (simp add: get_manufacturer_def demo_store_def find_one_def)
  moreover have "get_current_user demo_env demo_store 100 (Token ?p ''k'' ''HS256'')
     = Inl HTTP_401_UNAUTHORIZED"
    by (simp add: get_current_user_def decode_token_cases dec lookup_principal_def
        get_user_def demo_store_def find_one_def)
  ultimately show ?thesis using dec by blast
qed

text \<open>
  What holds (C10 as amended): a validly signed, unexpired token with a \<^verbatim>\<open>sub\<close> claim
  and no \<^verbatim>\<open>role\<close> claim is decoded with the role defaulted to \<^verbatim>\<open>"user"\<close>; if the
  principal the lookup resolves for the username (the user store's record when it has
  one, otherwise the manufacturer store's) is active, that principal is returned with
  role \<^verbatim>\<open>"user"\<close>.
\<close>

theorem missing_role_defaults_to_user:
  assumes "jwt_decode E now token (SECRET_KEY E) [ALGORITHM E] = Inr payload"
    and "payload ''sub'' = Some uname"
    and "payload ''role'' = None"
  shows "decode_token E now token =
           Inr (\<lparr>td_username = uname, td_role = PStr ''user''\<rparr>, PStr ''user'')
       \<and> (get_user s uname = Some usr \<and> truthy (is_active usr)
            \<longrightarrow> get_current_user E s now token = Inr (usr\<lparr>role := PStr ''user''\<rparr>))
       \<and> (get_user s uname = None
            \<and> find_one (\<lambda>d. PStr (m_username d) = uname) (manufacturers_collection s) = Some md
            \<and> m_is_active md \<noteq> Some False
            \<longrightarrow> get_current_user E s now token =
                  Inr \<lparr>username = PStr (m_username md), email = PStr (m_email md),
                       hashed_password = PStr '''', is_active = PBool True,
                       role = PStr ''user''\<rparr>)"
proof (intro conjI impI; (elim conjE)?)
  show "decode_token E now token =
           Inr (\<lparr>td_username = uname, td_role = PStr ''user''\<rparr>, PStr ''user'')"
    using assms by (simp add: decode_token_cases)
next
  assume "get_user s uname = Some usr" and "truthy (is_active usr)"
  with assms show "get_current_user E s now token = Inr (usr\<lparr>role := PStr ''user''\<rparr>)"
    by (simp add: get_current_user_def decode_token_cases lookup_principal_user)
next
  assume nou: "get_user s uname = None"
    and md: "find_one (\<lambda>d. PStr (m_username d) = uname) (manufacturers_collection s) = Some md"
    and act: "m_is_active md \<noteq> Some False"
  from act have "(case m_is_active md of None \<Rightarrow> True | Some b \<Rightarrow> b) = True"
    by (cases "m_is_active md") auto
  with lookup_principal_manufacturer_doc [OF nou md]
  have "lookup_principal s uname =
           Inr (Some \<lparr>username = PStr (m_username md), email = PStr (m_email md),
                      hashed_password = PStr '''', is_active = PBool True,
                      role = PStr ''manufacturer''\<rparr>)"
    by simp
  with assms show "get_current_user E s now token =
                  Inr \<lparr>username = PStr (m_username md), email = PStr (m_email md),
                       hashed_password = PStr '''', is_active = PBool True,
                       role = PStr ''user''\<rparr>"
    by (simp add: get_current_user_def decode_token_cases)
qed

text \<open>
  Tokens without a role claim for the super admin (user store) and for the manufacturer
  \<^verbatim>\<open>acme\<close> (manufacturer store only): both resolve to a principal with role \<^verbatim>\<open>"user"\<close>.
\<close>

theorem missing_role_defaults_to_user_witness:
  "get_current_user demo_env demo_store 100
       (Token [''sub'' \<mapsto> PStr ''admin'', ''exp'' \<mapsto> PInt 1000] ''k'' ''HS256'')
     = Inr \<lparr>username = PStr ''admin'', email = PStr ''admin@hospital-device-risk.com'',
            hashed_password = PStr ''$plain$admin123'', is_active = PBool True,
            role = PStr ''user''\<rparr>
   \<and> get_current_user demo_env demo_store 100
       (Token [''sub'' \<mapsto> PStr ''acme'', ''exp'' \<mapsto> PInt 1000] ''k'' ''HS256'')
     = Inr \<lparr>username = PStr ''acme'', email = PStr ''it@acme.example'',
            hashed_password = PStr '''', is_active = PBool True, role = PStr ''user''\<rparr>"
proof -
  let ?pa = "[''sub'' \<mapsto> PStr ''admin'', ''exp'' \<mapsto> PInt 1000]"
  let ?pm = "[''sub'' \<mapsto> PStr ''acme'', ''exp'' \<mapsto> PInt 1000]"
  let ?adm = "\<lparr>username = PStr ''admin'', email = PStr ''admin@hospital-device-risk.com'',
            hashed_password = PStr ''$plain$admin123'', is_active = PBool True,
            role = PStr ''super_admin''\<rparr>"
  let ?md = "manufacturers_collection demo_store ! 0"
  have deca: "jwt_decode demo_env 100 (Token ?pa ''k'' ''HS256'')
      (SECRET_KEY demo_env) [ALGORITHM demo_env] = Inr ?pa"
    by (simp add: demo_env_def demo_decode_def)
  have decm: "jwt_decode demo_env 100 (Token ?pm ''k'' ''HS256'')
      (SECRET_KEY demo_env) [ALGORITHM demo_env] = Inr ?pm"
    by (simp add: demo_env_def demo_decode_def)
  have suba: "?pa ''sub'' = Some (PStr ''admin'')" and rolea: "?pa ''role'' = None"
    by simp_all
  have subm: "?pm ''sub'' = Some (PStr ''acme'')" and rolem: "?pm ''role'' = None"
    by simp_all
  have adm: "get_user demo_store (PStr ''admin'') = Some ?adm"
    by (simp add: get_user_def demo_store_def find_one_def)
  have act: "truthy (is_active ?adm)"
    by simp
  have nou: "get_user demo_store (PStr ''acme'') = None"
    by (simp add: get_user_def demo_store_def find_one_def)
  have md: "find_one (\<lambda>d. PStr (m_username d) = PStr ''acme'')
      (manufacturers_collection demo_store) = Some ?md"
    by (simp add: demo_store_def find_one_def)
  have mact: "m_is_active ?md \<noteq> Some False"
    by (simp add: demo_store_def)
  have "get_current_user demo_env demo_store 100 (Token ?pa ''k'' ''HS256'')
      = Inr (?adm\<lparr>role := PStr ''user''\<rparr>)"
    using missing_role_defaults_to_user [OF deca suba rolea, where s = demo_store and usr = ?adm]
      adm act by blast
  moreover have "get_current_user demo_env demo_store 100 (Token ?pm ''k'' ''HS256'')
      = Inr \<lparr>username = PStr (m_username ?md), email = PStr (m_email ?md),
             hashed_password = PStr '''', is_active = PBool True, role = PStr ''user''\<rparr>"
    using missing_role_defaults_to_user [OF decm subm rolem, where s = demo_store and md = ?md]
      nou md mact by blast
  ultimately show ?thesis
    by (simp add: demo_store_def)
qed

section \<open>Registering a manufacturer\<close>

text \<open>
  \<^bold>\<open>C5\<close> (\<^verbatim>\<open>create_manufacturer_user\<close>). A username already in the manufacturer store
  gives \<^verbatim>\<open>(False, "Username already exists")\<close>; otherwise an email already in it gives
  \<^verbatim>\<open>(False, "Email already registered")\<close>; the username is checked first and the store is
  unchanged on either failure. Otherwise the record (with the hashed password, active,
  role \<^verbatim>\<open>"manufacturer"\<close>) is appended and the result is \<^verbatim>\<open>(True, id)\<close> with the inserted
  ObjectId as a non-empty string.
\<close>

theorem create_manufacturer_user_outcomes:
  "create_manufacturer_user E oid now_iso s uname mail password company_name =
     (if \<exists>d\<in>set (manufacturers_collection s). m_username d = uname
      then (s, False, ''Username already exists'')
      else if \<exists>d\<in>set (manufacturers_collection s). m_email d = mail
      then (s, False, ''Email already registered'')
      else (s\<lparr>manufacturers_collection := manufacturers_collection s @
                [\<lparr>m_id = oid, m_username = uname, m_email = mail,
                  m_hashed_password = pwd_hash E password,
                  m_company_name = company_name, m_is_active = Some True,
                  m_role = Some ''manufacturer'', m_created_at = now_iso\<rparr>]\<rparr>,
            True, str_oid oid))
   \<and> str_oid oid \<noteq> []"
proof -
  have "length (str_oid oid) = 24"
    by (rule length_str_oid)
  then have nonempty: "str_oid oid \<noteq> []"
    by auto
  show ?thesis
  proof (cases "find_one (\<lambda>d. m_username d = uname) (manufacturers_collection s)")
    case (Some existing_user)
    then have "\<exists>d\<in>set (manufacturers_collection s). m_username d = uname"
      by (auto dest: find_one_Some_holds)
    with Some nonempty show ?thesis
      by (simp add: create_manufacturer_user_def)
  next
    case None
    then have no_user: "\<not> (\<exists>d\<in>set (manufacturers_collection s). m_username d = uname)"
      by (simp add: find_one_None_iff)
    show ?thesis
    proof (cases "find_one (\<lambda>d. m_email d = mail) (manufacturers_collection s)")
      case (Some existing_email)
      then have "\<exists>d\<in>set (manufacturers_collection s). m_email d = mail"
        by (auto dest: find_one_Some_holds)
      with Some None no_user nonempty show ?thesis
        by (simp add: create_manufacturer_user_def)
    next
      case no_mail: None
      then have "\<not> (\<exists>d\<in>set (manufacturers_collection s). m_email d = mail)"
        by (simp add: find_one_None_iff)
      with no_mail None no_user nonempty show ?thesis
        by (simp add: create_manufacturer_user_def insert_one_def get_password_hash_def)
    qed
  qed
qed

text \<open>
  On the store above: the username \<^verbatim>\<open>acme\<close> is taken (also when the email is taken
  too), the email of \<^verbatim>\<open>acme\<close> is taken, and a new pair is inserted.
\<close>

theorem create_manufacturer_user_outcomes_witness:
  "create_manufacturer_user demo_env 255 ''2024-02-01'' demo_store
       ''acme'' ''old@maker.example'' ''pw'' ''Acme 2''
     = (demo_store, False, ''Username already exists'')
   \<and> create_manufacturer_user demo_env 255 ''2024-02-01'' demo_store
       ''zeta'' ''it@acme.example'' ''pw'' ''Zeta''
     = (demo_store, False, ''Email already registered'')
   \<and> create_manufacturer_user demo_env 255 ''2024-02-01'' demo_store
       ''zeta'' ''z@zeta.example'' ''pw'' ''Zeta''
     = (demo_store\<lparr>manufacturers_collection := manufacturers_collection demo_store @
                [\<lparr>m_id = 255, m_username = ''zeta'', m_email = ''z@zeta.example'',
                  m_hashed_password = ''$plain$pw'',
                  m_company_name = ''Zeta'', m_is_active = Some True,
                  m_role = Some ''manufacturer'', m_created_at = ''2024-02-01''\<rparr>]\<rparr>,
        True, ''0000000000000000000000ff'')"
proof -
  have names: "m_username ` set (manufacturers_collection demo_store) = {''acme'', ''bob'', ''old''}"
    by (simp add: demo_store_def insert_commute)
  have mails: "m_email ` set (manufacturers_collection demo_store) =
      {''it@acme.example'', ''bob@maker.example'', ''old@maker.example''}"
    by (simp add: demo_store_def insert_commute)
  have ex_name: "\<And>u. (\<exists>d\<in>set (manufacturers_collection demo_store). m_username d = u)
      = (u \<in> m_username ` set (manufacturers_collection demo_store))"
    by auto
  have ex_mail: "\<And>u. (\<exists>d\<in>set (manufacturers_collection demo_store). m_email d = u)
      = (u \<in> m_email ` set (manufacturers_collection demo_store))"
    by auto
  have oid: "str_oid 255 = ''0000000000000000000000ff''"
    by (simp add: str_oid_def hex_digit_def upt_conv_Cons)
  have hash: "pwd_hash demo_env ''pw'' = ''$plain$pw''"
    by (simp add: demo_env_def)
  have "create_manufacturer_user demo_env 255 ''2024-02-01'' demo_store
       ''acme'' ''old@maker.example'' ''pw'' ''Acme 2''
     = (demo_store, False, ''Username already exists'')"
    using create_manufacturer_user_outcomes
      [of demo_env 255 "''2024-02-01''" demo_store "''acme''" "''old@maker.example''"
        "''pw''" "''Acme 2''"]
    by (simp add: ex_name ex_mail names mails)
  moreover have "create_manufacturer_user demo_env 255 ''2024-02-01'' demo_store
       ''zeta'' ''it@acme.example'' ''pw'' ''Zeta''
     = (demo_store, False, ''Email already registered'')"
    using create_manufacturer_user_outcomes
      [of demo_env 255 "''2024-02-01''" demo_store "''zeta''" "''it@acme.example''"
        "''pw''" "''Zeta''"]
    by (simp add: ex_name ex_mail names mails)
  moreover have "create_manufacturer_user demo_env 255 ''2024-02-01'' demo_store
       ''zeta'' ''z@zeta.example'' ''pw'' ''Zeta''
     = (demo_store\<lparr>manufacturers_collection := manufacturers_collection demo_store @
                [\<lparr>m_id = 255, m_username = ''zeta'', m_email = ''z@zeta.example'',
                  m_hashed_password = ''$plain$pw'',
                  m_company_name = ''Zeta'', m_is_active = Some True,
                  m_role = Some ''manufacturer'', m_created_at = ''2024-02-01''\<rparr>]\<rparr>,
        True, ''0000000000000000000000ff'')"
    using create_manufacturer_user_outcomes
      [of demo_env 255 "''2024-02-01''" demo_store "''zeta''" "''z@zeta.example''"
        "''pw''" "''Zeta''"]
    by (simp add: ex_name ex_mail names mails oid hash)
  ultimately show ?thesis by blast
qed

section \<open>Issuing and verifying a token\<close>

text \<open>
  \<^bold>\<open>C6\<close> (\<^verbatim>\<open>create_access_token\<close>, then the \<^verbatim>\<open>try\<close> block of \<^verbatim>\<open>get_current_user\<close>).
  The codec is a parameter; what is assumed of it is that a token it signed over the
  claims \<^verbatim>\<open>sub\<close>, \<^verbatim>\<open>role\<close>, \<^verbatim>\<open>exp\<close> decodes, under the same key and algorithm and at any
  time up to \<^verbatim>\<open>exp\<close>, to those claims. Then the token issued for subject \<open>S\<close> and role
  \<open>R\<close> with no expiry argument carries the expiration time 15 minutes (900 seconds)
  after issuance, and verified at the time of issuance it is not expired and yields
  exactly the username \<open>S\<close> and the role \<open>R\<close>.
\<close>

theorem access_token_roundtrip:
  fixes E :: "'tok env"
  assumes codec: "\<And>e t. t \<le> e \<Longrightarrow>
      jwt_decode E t
        (jwt_encode E [''sub'' \<mapsto> PStr S, ''role'' \<mapsto> PStr R, ''exp'' \<mapsto> PInt e]
           (SECRET_KEY E) (ALGORITHM E))
        (SECRET_KEY E) [ALGORITHM E]
      = Inr [''sub'' \<mapsto> PStr S, ''role'' \<mapsto> PStr R, ''exp'' \<mapsto> PInt e]"
  shows "create_access_token E now [''sub'' \<mapsto> PStr S, ''role'' \<mapsto> PStr R] None =
           jwt_encode E [''sub'' \<mapsto> PStr S, ''role'' \<mapsto> PStr R, ''exp'' \<mapsto> PInt (now + 900)]
             (SECRET_KEY E) (ALGORITHM E)
       \<and> jwt_decode E now
           (create_access_token E now [''sub'' \<mapsto> PStr S, ''role'' \<mapsto> PStr R] None)
           (SECRET_KEY E) [ALGORITHM E]
         = Inr [''sub'' \<mapsto> PStr S, ''role'' \<mapsto> PStr R, ''exp'' \<mapsto> PInt (now + 900)]
       \<and> decode_token E now
           (create_access_token E now [''sub'' \<mapsto> PStr S, ''role'' \<mapsto> PStr R] None)
         = Inr (\<lparr>td_username = PStr S, td_role = PStr R\<rparr>, PStr R)"
proof -
  let ?claims = "[''sub'' \<mapsto> PStr S, ''role'' \<mapsto> PStr R, ''exp'' \<mapsto> PInt (now + 900)]"
  have issue: "create_access_token E now [''sub'' \<mapsto> PStr S, ''role'' \<mapsto> PStr R] None =
      jwt_encode E ?claims (SECRET_KEY E) (ALGORITHM E)"
    by (simp add: create_access_token_def)
  have "now \<le> now + 900"
    by simp
  then have dec: "jwt_decode E now (jwt_encode E ?claims (SECRET_KEY E) (ALGORITHM E))
      (SECRET_KEY E) [ALGORITHM E] = Inr ?claims"
    by (rule codec)
  have "decode_token E now (jwt_encode E ?claims (SECRET_KEY E) (ALGORITHM E))
      = Inr (\<lparr>td_username = PStr S, td_role = PStr R\<rparr>, PStr R)"
    by (simp add: decode_token_cases dec)
  with dec show ?thesis
    unfolding issue by simp
qed

text \<open>
  The concrete codec satisfies the assumption; a token for \<^verbatim>\<open>alice\<close> with role
  \<^verbatim>\<open>"manufacturer"\<close> issued at time 100 expires at 1000.
\<close>

theorem access_token_roundtrip_witness:
  "create_access_token demo_env 100
       [''sub'' \<mapsto> PStr ''alice'', ''role'' \<mapsto> PStr ''manufacturer''] None
     = Token [''sub'' \<mapsto> PStr ''alice'', ''role'' \<mapsto> PStr ''manufacturer'',
              ''exp'' \<mapsto> PInt 1000] ''k'' ''HS256''
   \<and> decode_token demo_env 100
       (create_access_token demo_env 100
          [''sub'' \<mapsto> PStr ''alice'', ''role'' \<mapsto> PStr ''manufacturer''] None)
     = Inr (\<lparr>td_username = PStr ''alice'', td_role = PStr ''manufacturer''\<rparr>,
            PStr ''manufacturer'')"
proof -
  have codec: "\<And>e t. t \<le> e \<Longrightarrow>
      jwt_decode demo_env t
        (jwt_encode demo_env
           [''sub'' \<mapsto> PStr ''alice'', ''role'' \<mapsto> PStr ''manufacturer'', ''exp'' \<mapsto> PInt e]
           (SECRET_KEY demo_env) (ALGORITHM demo_env))
        (SECRET_KEY demo_env) [ALGORITHM demo_env]
      = Inr [''sub'' \<mapsto> PStr ''alice'', ''role'' \<mapsto> PStr ''manufacturer'', ''exp'' \<mapsto> PInt e]"
    by (simp add: demo_env_def demo_decode_def)
  have keys: "SECRET_KEY demo_env = ''k''" "ALGORITHM demo_env = ''HS256''"
    "jwt_encode demo_env = (\<lambda>claims key alg. Token claims key alg)"
    by (simp_all add: demo_env_def)
  note rt = access_token_roundtrip [of demo_env "''alice''" "''manufacturer''" 100, OF codec]
  from rt have "create_access_token demo_env 100
       [''sub'' \<mapsto> PStr ''alice'', ''role'' \<mapsto> PStr ''manufacturer''] None
     = Token [''sub'' \<mapsto> PStr ''alice'', ''role'' \<mapsto> PStr ''manufacturer'',
              ''exp'' \<mapsto> PInt 1000] ''k'' ''HS256''"
    by (simp add: keys)
  moreover from rt have "decode_token demo_env 100
       (create_access_token demo_env 100
          [''sub'' \<mapsto> PStr ''alice'', ''role'' \<mapsto> PStr ''manufacturer''] None)
     = Inr (\<lparr>td_username = PStr ''alice'', td_role = PStr ''manufacturer''\<rparr>,
            PStr ''manufacturer'')"
    by blast
  ultimately show ?thesis by blast
qed

end
